theory Spec2Isabelle
  imports Main "HOL-Library.Sublist"
begin

section \<open>Python primitives used by \<^verbatim>\<open>spack/util/module_cmd.py\<close>\<close>

text \<open>
  The file under study is \<^verbatim>\<open>lib/spack/spack/util/module_cmd.py\<close>. Its functions
  \<^verbatim>\<open>module\<close>, \<^verbatim>\<open>get_argument_from_module_line\<close> and \<^verbatim>\<open>get_path_from_module\<close> are
  translated below; \<^verbatim>\<open>load_module\<close>, which only calls \<^verbatim>\<open>module\<close> in a loop, is left
  out. A Python string is a \<^typ>\<open>string\<close>, a list of 8-bit characters, both for
  the bytes that \<^verbatim>\<open>subprocess\<close> hands back and for text. Where Python 3 keeps the
  two apart and the program mixes them, the model raises the \<^verbatim>\<open>TypeError\<close> that
  Python 3 raises (see \<open>python3\<close> below). An exception is a value of \<open>py_error\<close>; a
  function that can raise returns \<open>py_error + 'a\<close>.
\<close>

datatype py_error =
    ValueError string
  | IndexError
  | TypeError
  | AttributeError
  | OSError
  | UnicodeDecodeError

definition dq :: char where "dq = CHR 0x22"
definition sq :: char where "sq = CHR 0x27"
definition nl :: char where "nl = CHR 0x0A"
definition comma :: char where "comma = CHR '',''"
definition lparen :: char where "lparen = CHR ''(''"
definition rparen :: char where "rparen = CHR '')''"

text \<open>\<^verbatim>\<open>xs[i]\<close>: a negative index counts from the end, an index out of range raises.\<close>

definition py_getitem :: "'a list \<Rightarrow> int \<Rightarrow> py_error + 'a" where
  "py_getitem xs i =
     (let n = int (length xs);
          j = (if i < 0 then i + n else i)
      in if j < 0 \<or> n \<le> j then Inl IndexError else Inr (xs ! nat j))"

text \<open>Slices clamp their bounds to the string: \<^verbatim>\<open>s[a:]\<close>, \<^verbatim>\<open>s[:b]\<close> and \<^verbatim>\<open>s[a:b]\<close>.\<close>

definition slice_bound :: "nat \<Rightarrow> int \<Rightarrow> nat" where
  "slice_bound n i = (if i < 0 then nat (int n + i) else min n (nat i))"

definition py_slice_from :: "'a list \<Rightarrow> int \<Rightarrow> 'a list" where
  "py_slice_from xs a = drop (slice_bound (length xs) a) xs"

definition py_slice_to :: "'a list \<Rightarrow> int \<Rightarrow> 'a list" where
  "py_slice_to xs b = take (slice_bound (length xs) b) xs"

definition py_slice :: "'a list \<Rightarrow> int \<Rightarrow> int \<Rightarrow> 'a list" where
  "py_slice xs a b =
     (let lo = slice_bound (length xs) a;
          hi = slice_bound (length xs) b
      in take (hi - lo) (drop lo xs))"

text \<open>\<^verbatim>\<open>s.find(sub)\<close>: the least index at which \<open>sub\<close> starts, or \<open>-1\<close>.\<close>

fun find_sub :: "string \<Rightarrow> string \<Rightarrow> nat option" where
  "find_sub sub [] = (if sub = [] then Some 0 else None)"
| "find_sub sub (c # cs) =
     (if prefix sub (c # cs) then Some 0 else map_option Suc (find_sub sub cs))"

definition py_find :: "string \<Rightarrow> string \<Rightarrow> int" where
  "py_find s sub = (case find_sub sub s of None \<Rightarrow> - 1 | Some i \<Rightarrow> int i)"

text \<open>\<^verbatim>\<open>s.index(sub)\<close> is \<^verbatim>\<open>find\<close> that raises when there is no occurrence.\<close>

definition py_index :: "string \<Rightarrow> string \<Rightarrow> py_error + int" where
  "py_index s sub =
     (case find_sub sub s of
        None \<Rightarrow> Inl (ValueError ''substring not found'')
      | Some i \<Rightarrow> Inr (int i))"

text \<open>\<^verbatim>\<open>sub in s\<close> for strings.\<close>

definition py_in :: "string \<Rightarrow> string \<Rightarrow> bool" where
  "py_in sub s = (find_sub sub s \<noteq> None)"

text \<open>\<^verbatim>\<open>min\<close> of a sequence raises \<^verbatim>\<open>ValueError\<close> on the empty one.\<close>

fun py_min :: "int list \<Rightarrow> py_error + int" where
  "py_min [] = Inl (ValueError ''min() arg is an empty sequence'')"
| "py_min (x # xs) = Inr (fold min xs x)"

text \<open>
  \<^verbatim>\<open>s.split(sep)\<close> for a separator of one character, the only kind this file passes
  (\<^verbatim>\<open>'\n'\<close> and a quote character): \<open>n\<close> occurrences give \<open>n + 1\<close> segments.
\<close>

fun py_split :: "string \<Rightarrow> char \<Rightarrow> string list" where
  "py_split [] sep = [[]]"
| "py_split (c # cs) sep =
     (if c = sep then [] # py_split cs sep
      else (case py_split cs sep of
              [] \<Rightarrow> [[c]]
            | w # ws \<Rightarrow> (c # w) # ws))"

text \<open>
  Whitespace of a byte string: space, tab, line feed, vertical tab, form feed and
  carriage return. \<^verbatim>\<open>s.strip()\<close> removes it at both ends; \<^verbatim>\<open>s.split()\<close> cuts at
  runs of it and yields no empty word.
\<close>

definition isspace :: "char \<Rightarrow> bool" where
  "isspace c = (c \<in> set [CHR '' '', CHR 0x09, CHR 0x0A, CHR 0x0B, CHR 0x0C, CHR 0x0D])"

definition strip :: "string \<Rightarrow> string" where
  "strip s = rev (dropWhile isspace (rev (dropWhile isspace s)))"

function py_split_ws :: "string \<Rightarrow> string list" where
  "py_split_ws [] = []"
| "py_split_ws (c # cs) =
     (if isspace c then py_split_ws cs
      else (c # takeWhile (\<lambda>d. \<not> isspace d) cs)
             # py_split_ws (dropWhile (\<lambda>d. \<not> isspace d) cs))"
  by pat_completeness auto
termination
  by (relation "measure length") (auto simp: le_imp_less_Suc length_dropWhile_le)

text \<open>\<^verbatim>\<open>sep.join(xs)\<close>.\<close>

fun py_join :: "string \<Rightarrow> string list \<Rightarrow> string" where
  "py_join sep [] = []"
| "py_join sep [x] = x"
| "py_join sep (x # y # ys) = x @ sep @ py_join sep (y # ys)"

text \<open>\<^verbatim>\<open>s.upper()\<close>: the letters a to z become A to Z, every other byte stays.\<close>

definition upper_char :: "char \<Rightarrow> char" where
  "upper_char c =
     (case map_of (zip ''abcdefghijklmnopqrstuvwxyz'' ''ABCDEFGHIJKLMNOPQRSTUVWXYZ'') c of
        None \<Rightarrow> c
      | Some u \<Rightarrow> u)"

definition upper :: "string \<Rightarrow> string" where
  "upper s = map upper_char s"

section \<open>The module command\<close>

text \<open>
  What the program does not contain is a parameter of the model: the shell that
  \<^verbatim>\<open>subprocess.Popen(..., shell=True)\<close> starts and what its command prints, the codec of
  \<^verbatim>\<open>bytes.decode()\<close>, and \<^verbatim>\<open>json.loads\<close>. A \<open>runtime\<close> collects them, and every
  theorem below holds for every runtime.
  \<^item> \<open>popen env cmd\<close> is \<^verbatim>\<open>Popen(cmd, stdout=PIPE, stderr=STDOUT, shell=True)\<close> followed by
    \<^verbatim>\<open>communicate()\<close>, started in the environment \<open>env\<close> that the child inherits: the
    bytes captured from the combined stream and the exit status, or the error of a
    shell that could not be started.
  \<^item> \<open>decode\<close> is \<^verbatim>\<open>bytes.decode()\<close> with the interpreter's default codec.
  \<^item> \<open>json_loads\<close> is \<^verbatim>\<open>json.loads\<close>: a value, or the error raised on text that is not
    JSON. A number keeps its literal text.
  \<^item> \<open>update_other\<close> is \<^verbatim>\<open>os.environ.update\<close> on a value that is not a dict, which
    Python versions treat differently.
  \<^item> \<open>python3\<close> tells whether the interpreter is Python 3, where the captured output
    is a \<^verbatim>\<open>bytes\<close> object and \<^verbatim>\<open>bytes.split\<close> with the text separator \<^verbatim>\<open>'\n'\<close> raises
    \<^verbatim>\<open>TypeError\<close>; on Python 2 the output is a \<^verbatim>\<open>str\<close> and the call splits it.
  \<^item> \<open>environ_refuses k v\<close> is the error that the assignment \<^verbatim>\<open>os.environ[k] = v\<close>
    raises for strings \<open>k\<close> and \<open>v\<close>, if it raises one: interpreters and operating
    systems refuse some names and values (an empty name, a name with \<^verbatim>\<open>=\<close>, a NUL
    byte).
\<close>

datatype json =
    JNull
  | JBool bool
  | JNumber string
  | JString string
  | JArray "json list"
  | JObject "(string \<times> json) list"

type_synonym environment = "string \<rightharpoonup> string"

record proc_result =
  stdout_data :: string
  returncode :: int

record runtime =
  popen :: "environment \<Rightarrow> string \<Rightarrow> py_error + proc_result"
  decode :: "string \<Rightarrow> py_error + string"
  json_loads :: "string \<Rightarrow> py_error + json"
  update_other :: "json \<Rightarrow> environment \<Rightarrow> py_error option \<times> environment"
  python3 :: bool
  environ_refuses :: "string \<Rightarrow> string \<Rightarrow> py_error option"

text \<open>
  The state a call can change: \<^verbatim>\<open>os.environ\<close>, and the command lines handed to
  \<^verbatim>\<open>subprocess.Popen\<close> so far. A call returns its outcome and the state it leaves; a
  raised exception keeps the changes made before it.
\<close>

record world =
  environ :: environment
  spawned :: "string list"

datatype py_value = PyNone | PyStr string

text \<open>
  \<^verbatim>\<open>os.environ.update(d)\<close> for a dict assigns \<^verbatim>\<open>os.environ[k] = d[k]\<close> key by key.
  An assignment of a value that is not a string raises \<^verbatim>\<open>TypeError\<close>, and one that
  the runtime refuses raises its error; either way the earlier assignments stay in
  place and the later ones are not made.
\<close>

fun update_items ::
  "runtime \<Rightarrow> (string \<times> json) list \<Rightarrow> environment \<Rightarrow> py_error option \<times> environment" where
  "update_items rt [] e = (None, e)"
| "update_items rt ((k, JString s) # kvs) e =
     (case environ_refuses rt k s of
        Some err \<Rightarrow> (Some err, e)
      | None \<Rightarrow> update_items rt kvs (e(k \<mapsto> s)))"
| "update_items rt ((k, _) # kvs) e = (Some TypeError, e)"

fun os_environ_update :: "runtime \<Rightarrow> json \<Rightarrow> environment \<Rightarrow> py_error option \<times> environment" where
  "os_environ_update rt (JObject kvs) e = update_items rt kvs e"
| "os_environ_update rt v e = update_other rt v e"

definition module_change_commands :: "string list" where
  "module_change_commands = [''load'', ''swap'', ''unload'', ''purge'', ''use'', ''unuse'']"

definition py_cmd :: string where
  "py_cmd = ''$'' @ [sq] @ ''import os'' @ [nl] @ ''import json'' @ [nl]
            @ ''print(json.dumps(dict(os.environ)))'' @ [sq]"

definition module :: "runtime \<Rightarrow> world \<Rightarrow> string list \<Rightarrow> (py_error + py_value) \<times> world" where
  "module rt w args =
     (case py_getitem args 0 of
        Inl e \<Rightarrow> (Inl e, w)
      | Inr a0 \<Rightarrow>
          if a0 \<in> set module_change_commands then
            (let cmd = ''module '' @ py_join '' '' args @ '' 2>&1''
                         @ ('' >/dev/null; python -c '' @ py_cmd);
                 w1 = w\<lparr>spawned := spawned w @ [cmd]\<rparr>
             in case popen rt (environ w) cmd of
                  Inl e \<Rightarrow> (Inl e, w1)
                | Inr module_p \<Rightarrow>
                    (let env_output = stdout_data module_p
                     in if python3 rt then (Inl TypeError, w1)
                        else
                          case py_getitem (py_split (strip env_output) nl) (- 1) of
                            Inl e \<Rightarrow> (Inl e, w1)
                          | Inr env \<Rightarrow>
                              (case json_loads rt env of
                                 Inl e \<Rightarrow> (Inl e, w1)
                               | Inr env_dict \<Rightarrow>
                                   (case os_environ_update rt env_dict Map.empty of
                                      (Some e, en) \<Rightarrow> (Inl e, w1\<lparr>environ := en\<rparr>)
                                    | (None, en) \<Rightarrow> (Inr PyNone, w1\<lparr>environ := en\<rparr>)))))
          else
            (let cmd = ''module '' @ py_join '' '' args @ '' 2>&1'';
                 w1 = w\<lparr>spawned := spawned w @ [cmd]\<rparr>
             in case popen rt (environ w) cmd of
                  Inl e \<Rightarrow> (Inl e, w1)
                | Inr module_p \<Rightarrow>
                    (case decode rt (stdout_data module_p) of
                       Inl e \<Rightarrow> (Inl e, w1)
                     | Inr s \<Rightarrow> (Inr (PyStr s), w1))))"

section \<open>Reading a path out of a module description\<close>

definition get_argument_from_module_line :: "string \<Rightarrow> py_error + string" where
  "get_argument_from_module_line line =
     (if py_in [lparen] line \<and> py_in [rparen] line then
        (case py_index line [comma] of
           Inl e \<Rightarrow> Inl e
         | Inr comma_index \<Rightarrow>
             (let cline = py_slice_from line comma_index
              in case (case py_min (map (py_find cline)
                                      (filter (\<lambda>q. py_in q cline) [[dq], [sq]])) of
                         Inl e \<Rightarrow> Inl e
                       | Inr quote_index \<Rightarrow> py_getitem cline quote_index) of
                   Inl (ValueError m) \<Rightarrow>
                     Inl (ValueError ''No lua quote symbol found in lmod module line.'')
                 | Inl e \<Rightarrow> Inl e
                 | Inr lua_quote \<Rightarrow> py_getitem (py_split line lua_quote) (- 2)))
      else py_getitem (py_split_ws line) 2)"

text \<open>
  The body of \<^verbatim>\<open>get_path_from_module\<close> after its first statement, on the lines of the
  description; each \<^verbatim>\<open>for\<close> loop returns at its first matching line.
\<close>

definition get_path_from_lines :: "string \<Rightarrow> string list \<Rightarrow> py_error + string option" where
  "get_path_from_lines modname text =
     (case find (\<lambda>line. 0 \<le> py_find line ''LD_LIBRARY_PATH'') text of
        Some line \<Rightarrow>
          (case get_argument_from_module_line line of
             Inl e \<Rightarrow> Inl e
           | Inr path \<Rightarrow> Inr (Some (py_slice_to path (py_find path ''/lib''))))
      | None \<Rightarrow>
     (case find (\<lambda>line. 0 \<le> py_find line (upper modname @ ''_DIR'')) text of
        Some line \<Rightarrow>
          (case get_argument_from_module_line line of
             Inl e \<Rightarrow> Inl e
           | Inr path \<Rightarrow> Inr (Some path))
      | None \<Rightarrow>
     (case find (\<lambda>line. 0 \<le> py_find line ''-rpath/'') text of
        Some line \<Rightarrow>
          Inr (Some (py_slice line (py_find line ''-rpath/'' + 6) (py_find line ''/lib'')))
      | None \<Rightarrow>
     (case find (\<lambda>line. 0 \<le> py_find line ''-L/'') text of
        Some line \<Rightarrow>
          Inr (Some (py_slice line (py_find line ''-L/'' + 2) (py_find line ''/lib'')))
      | None \<Rightarrow>
     (case find (\<lambda>line. 0 \<le> py_find line ''PATH'') text of
        Some line \<Rightarrow>
          (case get_argument_from_module_line line of
             Inl e \<Rightarrow> Inl e
           | Inr path \<Rightarrow> Inr (Some (py_slice_to path (py_find path ''/bin''))))
      | None \<Rightarrow> Inr None)))))"

definition get_path_from_module :: "runtime \<Rightarrow> world \<Rightarrow> string \<Rightarrow> (py_error + string option) \<times> world" where
  "get_path_from_module rt w modname =
     (case module rt w [''show'', modname] of
        (Inl e, w') \<Rightarrow> (Inl e, w')
      | (Inr PyNone, w') \<Rightarrow> (Inl AttributeError, w')
      | (Inr (PyStr s), w') \<Rightarrow> (get_path_from_lines modname (py_split s nl), w'))"

section \<open>The specification's vocabulary\<close>

text \<open>
  The notions the specification words its properties with, defined apart from the
  program: a quote character of the Lua dialect, the delimiter of a line (the quote
  character that comes first from the first comma onward), the second-to-last
  element of a list, and the last line of the captured output once its surrounding
  whitespace is trimmed. Whitespace is listed character by character, and trimming
  removes it first at the end of the text, then at its start. That a line contains a
  text is \<^const>\<open>sublist\<close>.
\<close>

definition is_lua_quote :: "char \<Rightarrow> bool" where
  "is_lua_quote c = (c = dq \<or> c = sq)"

definition spec_delimiter :: "string \<Rightarrow> char option" where
  "spec_delimiter line = find is_lua_quote (dropWhile (\<lambda>c. c \<noteq> comma) line)"

definition second_to_last :: "'a list \<Rightarrow> 'a" where
  "second_to_last xs = xs ! (length xs - 2)"

definition spec_whitespace :: "char \<Rightarrow> bool" where
  "spec_whitespace c =
     (c = CHR '' '' \<or> c = CHR 0x09 \<or> c = CHR 0x0A \<or> c = CHR 0x0B \<or> c = CHR 0x0C
      \<or> c = CHR 0x0D)"

definition spec_trim :: "string \<Rightarrow> string" where
  "spec_trim s = dropWhile spec_whitespace (rev (dropWhile spec_whitespace (rev s)))"

definition spec_last_line :: "string \<Rightarrow> string" where
  "spec_last_line out = rev (takeWhile (\<lambda>c. c \<noteq> CHR 0x0A) (rev (spec_trim out)))"

text \<open>The first line of a description that contains a given text, if there is one.\<close>

definition first_line_containing :: "string \<Rightarrow> string list \<Rightarrow> string option" where
  "first_line_containing X text = find (sublist X) text"

text \<open>The command lines the two branches of \<^verbatim>\<open>module\<close> hand to the shell.\<close>

definition read_only_command :: "string list \<Rightarrow> string" where
  "read_only_command args = ''module '' @ py_join '' '' args @ '' 2>&1''"

definition mutating_command :: "string list \<Rightarrow> string" where
  "mutating_command args =
     ''module '' @ py_join '' '' args @ '' 2>&1 >/dev/null; python -c '' @ py_cmd"

section \<open>A concrete runtime\<close>

text \<open>
  For runs on concrete inputs, a Python 2 runtime: a shell whose command prints
  \<open>out\<close> and exits with \<open>rc\<close>, the ASCII codec (Python 2's default), a JSON reader
  that knows the texts of a table and rejects every other text with the error
  \<^verbatim>\<open>json.loads\<close> raises on text that is not JSON, and an environment that refuses,
  as POSIX \<^verbatim>\<open>setenv\<close> does, an empty name, a name with \<^verbatim>\<open>=\<close> in it, and a NUL
  byte in a name or a value. The
  tables used below list valid JSON texts with their values, and the rejected texts
  they are run on are not JSON. The same runtime with \<open>python3\<close> set stands for
  Python 3 on the mutating path, where neither the codec nor the JSON reader is
  called.
\<close>

definition strict_refuses :: "string \<Rightarrow> string \<Rightarrow> py_error option" where
  "strict_refuses k v =
     (if k = [] \<or> CHR ''='' \<in> set k \<or> CHR 0x00 \<in> set k \<or> CHR 0x00 \<in> set v
      then Some OSError else None)"

definition ascii_decode :: "string \<Rightarrow> py_error + string" where
  "ascii_decode s =
     (if list_all (\<lambda>c. of_char c < (128 :: nat)) s then Inr s else Inl UnicodeDecodeError)"

definition table_json_loads :: "(string \<times> json) list \<Rightarrow> string \<Rightarrow> py_error + json" where
  "table_json_loads tbl s =
     (case map_of tbl s of
        None \<Rightarrow> Inl (ValueError ''No JSON object could be decoded'')
      | Some v \<Rightarrow> Inr v)"

definition fixed_runtime :: "string \<Rightarrow> int \<Rightarrow> (string \<times> json) list \<Rightarrow> runtime" where
  "fixed_runtime out rc tbl =
     \<lparr>popen = (\<lambda>env cmd. Inr \<lparr>stdout_data = out, returncode = rc\<rparr>),
      decode = ascii_decode,
      json_loads = table_json_loads tbl,
      update_other = (\<lambda>v e. (Some TypeError, e)),
      python3 = False,
      environ_refuses = strict_refuses\<rparr>"

text \<open>A text between double quotes, for writing the example inputs.\<close>

definition quoted :: "string \<Rightarrow> string" where
  "quoted s = [dq] @ s @ [dq]"

section \<open>Facts about the primitives\<close>

lemma find_sub_None_iff: "find_sub sub s = None \<longleftrightarrow> \<not> sublist sub s"
  by (induction s) (auto simp: sublist_Cons_right)

lemma py_find_nonneg_iff: "0 \<le> py_find s sub \<longleftrightarrow> sublist sub s"
  using find_sub_None_iff [of sub s] by (auto simp: py_find_def split: option.splits)

lemma py_find_absent: "\<not> sublist sub s \<Longrightarrow> py_find s sub = - 1"
  using find_sub_None_iff [of sub s] by (simp add: py_find_def)

lemma find_sub_single:
  "find_sub [c] s = (if c \<in> set s then Some (length (takeWhile (\<lambda>x. x \<noteq> c) s)) else None)"
  by (induction s) auto

lemma py_in_single: "py_in [c] s \<longleftrightarrow> c \<in> set s"
  by (simp add: py_in_def find_sub_single)

lemma py_find_single:
  "py_find s [c] = (if c \<in> set s then int (length (takeWhile (\<lambda>x. x \<noteq> c) s)) else - 1)"
  by (simp add: py_find_def find_sub_single)

lemma py_index_single:
  "py_index s [c] = (if c \<in> set s then Inr (int (length (takeWhile (\<lambda>x. x \<noteq> c) s)))
                     else Inl (ValueError ''substring not found''))"
  by (simp add: py_index_def find_sub_single)

lemma py_slice_from_takeWhile:
  "py_slice_from s (int (length (takeWhile P s))) = dropWhile P s"
  by (simp add: py_slice_from_def slice_bound_def dropWhile_eq_drop min_absorb2 length_takeWhile_le)

lemma py_slice_to_minus_one: "py_slice_to s (- 1) = butlast s"
  by (simp add: py_slice_to_def slice_bound_def butlast_conv_take nat_diff_distrib')

lemma length_py_split: "length (py_split s c) = Suc (count_list s c)"
  by (induction s) (auto split: list.splits)

lemma py_split_nonempty: "py_split s c \<noteq> []"
  using length_py_split [of s c] by auto

lemma py_split_join: "py_join [c] (py_split s c) = s"
proof (induction s)
  case Nil
  show ?case by simp
next
  case (Cons a s)
  obtain w ws where ws: "py_split s c = w # ws"
    using py_split_nonempty [of s c] by (cases "py_split s c") auto
  with Cons show ?case
    by (cases ws) auto
qed

lemma py_split_no_sep: "seg \<in> set (py_split s c) \<Longrightarrow> c \<notin> set seg"
  by (induction s arbitrary: seg) (auto split: list.splits if_splits)

lemma last_py_split: "last (py_split s c) = rev (takeWhile (\<lambda>x. x \<noteq> c) (rev s))"
proof (induction s)
  case Nil
  show ?case by simp
next
  case (Cons a s)
  obtain w ws where ws: "py_split s c = w # ws"
    using py_split_nonempty [of s c] by (cases "py_split s c") auto
  show ?case
  proof (cases "c \<in> set s")
    case True
    then have "ws \<noteq> []" using length_py_split [of s c] ws by (auto simp: count_list_0_iff)
    with Cons ws True show ?thesis by (auto simp: takeWhile_append1 takeWhile_append)
  next
    case False
    then have "count_list s c = 0" by (simp add: count_list_0_iff)
    then have "ws = []" using length_py_split [of s c] ws by auto
    moreover from False have tw: "takeWhile (\<lambda>x. x \<noteq> c) (rev s) = rev s"
      by (auto simp: takeWhile_eq_all_conv)
    moreover from False have tw2: "takeWhile (\<lambda>x. x \<noteq> c) (rev s @ ys) = rev s @ takeWhile (\<lambda>x. x \<noteq> c) ys" for ys
      by (intro takeWhile_append2) auto
    ultimately show ?thesis using Cons ws False by (simp add: tw tw2)
  qed
qed

lemma py_getitem_last: "xs \<noteq> [] \<Longrightarrow> py_getitem xs (- 1) = Inr (last xs)"
  by (cases xs rule: rev_cases) (auto simp: py_getitem_def Let_def nth_append)

lemma py_getitem_second_to_last:
  "2 \<le> length xs \<Longrightarrow> py_getitem xs (- 2) = Inr (xs ! (length xs - 2))"
  by (auto simp: py_getitem_def Let_def nat_diff_distrib' intro: arg_cong [where f = "nth xs"])


lemma takeWhile_quotes_min:
  "dq \<in> set s \<Longrightarrow> sq \<in> set s \<Longrightarrow>
   min (length (takeWhile (\<lambda>x. x \<noteq> dq) s)) (length (takeWhile (\<lambda>x. x \<noteq> sq) s))
     = length (takeWhile (\<lambda>x. \<not> is_lua_quote x) s)"
  by (induction s) (auto simp: is_lua_quote_def)

lemma takeWhile_quotes_dq:
  "sq \<notin> set s \<Longrightarrow> takeWhile (\<lambda>x. x \<noteq> dq) s = takeWhile (\<lambda>x. \<not> is_lua_quote x) s"
  by (induction s) (auto simp: is_lua_quote_def)

lemma takeWhile_quotes_sq:
  "dq \<notin> set s \<Longrightarrow> takeWhile (\<lambda>x. x \<noteq> sq) s = takeWhile (\<lambda>x. \<not> is_lua_quote x) s"
  by (induction s) (auto simp: is_lua_quote_def)

lemma find_nth_takeWhile:
  "find P s = Some q \<Longrightarrow>
   length (takeWhile (\<lambda>x. \<not> P x) s) < length s \<and> s ! length (takeWhile (\<lambda>x. \<not> P x) s) = q"
  by (induction s) (auto split: if_splits)

lemma find_Some_member: "find P s = Some q \<Longrightarrow> q \<in> set s \<and> P q"
  by (induction s) (auto split: if_splits)

lemma quote_index_None:
  "find is_lua_quote cline = None \<Longrightarrow>
   py_min (map (py_find cline) (filter (\<lambda>q. py_in q cline) [[dq], [sq]]))
     = Inl (ValueError ''min() arg is an empty sequence'')"
  by (auto simp: find_None_iff py_in_single is_lua_quote_def)

lemma quote_index_Some:
  assumes "find is_lua_quote cline = Some q"
  shows "py_min (map (py_find cline) (filter (\<lambda>q. py_in q cline) [[dq], [sq]]))
     = Inr (int (length (takeWhile (\<lambda>x. \<not> is_lua_quote x) cline)))"
proof -
  from assms have "dq \<in> set cline \<or> sq \<in> set cline"
    using find_Some_member [of is_lua_quote cline q] by (auto simp: is_lua_quote_def)
  then show ?thesis
    using takeWhile_quotes_min [of cline] takeWhile_quotes_dq [of cline] takeWhile_quotes_sq [of cline]
    by (cases "dq \<in> set cline"; cases "sq \<in> set cline")
       (auto simp: py_in_single py_find_single)
qed

lemma lua_quote_Some:
  assumes "find is_lua_quote cline = Some q"
  shows "(case py_min (map (py_find cline) (filter (\<lambda>q. py_in q cline) [[dq], [sq]])) of
            Inl e \<Rightarrow> Inl e
          | Inr quote_index \<Rightarrow> py_getitem cline quote_index) = Inr q"
  using find_nth_takeWhile [OF assms]
  by (subst quote_index_Some [OF assms]) (simp add: py_getitem_def Let_def)

lemma find_quote_comma:
  assumes "find is_lua_quote (dropWhile (\<lambda>c. c \<noteq> comma) line) = Some q"
  shows "comma \<in> set line" and "q \<in> set line" and "is_lua_quote q"
proof -
  from find_Some_member [OF assms]
  have q: "q \<in> set (dropWhile (\<lambda>c. c \<noteq> comma) line)" and "is_lua_quote q" by simp_all
  then show "is_lua_quote q" by simp
  from q show "q \<in> set line" by (rule set_dropWhileD)
  show "comma \<in> set line"
  proof (rule ccontr)
    assume "comma \<notin> set line"
    then have "dropWhile (\<lambda>c. c \<noteq> comma) line = []"
      by (auto simp: dropWhile_eq_Nil_conv)
    with q show False by simp
  qed
qed

lemma lua_branch:
  assumes "lparen \<in> set line" and "rparen \<in> set line" and "comma \<in> set line"
  shows "get_argument_from_module_line line =
           (case (case py_min (map (py_find (dropWhile (\<lambda>c. c \<noteq> comma) line))
                                 (filter (\<lambda>q. py_in q (dropWhile (\<lambda>c. c \<noteq> comma) line)) [[dq], [sq]])) of
                    Inl e \<Rightarrow> Inl e
                  | Inr quote_index \<Rightarrow> py_getitem (dropWhile (\<lambda>c. c \<noteq> comma) line) quote_index) of
              Inl (ValueError m) \<Rightarrow>
                Inl (ValueError ''No lua quote symbol found in lmod module line.'')
            | Inl e \<Rightarrow> Inl e
            | Inr lua_quote \<Rightarrow> py_getitem (py_split line lua_quote) (- 2))"
  using assms
  by (simp add: get_argument_from_module_line_def py_in_single py_index_single
      py_slice_from_takeWhile Let_def del: py_min.simps)

lemma py_split_ws_words:
  "w \<in> set (py_split_ws s) \<Longrightarrow> w \<noteq> [] \<and> list_all (\<lambda>c. \<not> isspace c) w"
proof (induction s arbitrary: w rule: py_split_ws.induct)
  case 1
  then show ?case by simp
next
  case (2 c cs)
  show ?case
  proof (cases "isspace c")
    case True
    with 2 show ?thesis by simp
  next
    case False
    from 2(3) False
    consider "w = c # takeWhile (\<lambda>d. \<not> isspace d) cs"
      | "w \<in> set (py_split_ws (dropWhile (\<lambda>d. \<not> isspace d) cs))"
      by auto
    then show ?thesis
    proof cases
      case 1
      with False show ?thesis by (auto simp: list_all_iff dest: set_takeWhileD)
    next
      case 2
      then show ?thesis by (rule "2.IH"(2) [OF False])
    qed
  qed
qed

lemma filter_takeWhile_dropWhile:
  "filter P cs = takeWhile P cs @ filter P (dropWhile P cs)"
  by (induction cs) auto

lemma py_split_ws_concat: "concat (py_split_ws s) = filter (\<lambda>c. \<not> isspace c) s"
proof (induction s rule: py_split_ws.induct)
  case 1
  show ?case by simp
next
  case (2 c cs)
  show ?case
  proof (cases "isspace c")
    case True
    with 2 show ?thesis by simp
  next
    case False
    have "concat (py_split_ws (c # cs))
            = c # takeWhile (\<lambda>d. \<not> isspace d) cs
                @ concat (py_split_ws (dropWhile (\<lambda>d. \<not> isspace d) cs))"
      using False by simp
    also have "\<dots> = c # takeWhile (\<lambda>d. \<not> isspace d) cs
                @ filter (\<lambda>c. \<not> isspace c) (dropWhile (\<lambda>d. \<not> isspace d) cs)"
      by (simp only: "2.IH"(2) [OF False])
    also have "\<dots> = c # filter (\<lambda>c. \<not> isspace c) cs"
      by (simp only: filter_takeWhile_dropWhile [symmetric])
    also have "\<dots> = filter (\<lambda>c. \<not> isspace c) (c # cs)"
      using False by simp
    finally show ?thesis .
  qed
qed

lemma find_py_find: "find (\<lambda>line. 0 \<le> py_find line X) text = find (sublist X) text"
  by (simp add: py_find_nonneg_iff cong: find_cong)

lemma get_path_from_lines_spec:
  "get_path_from_lines modname text =
     (case find (sublist ''LD_LIBRARY_PATH'') text of
        Some line \<Rightarrow>
          (case get_argument_from_module_line line of
             Inl e \<Rightarrow> Inl e
           | Inr path \<Rightarrow> Inr (Some (py_slice_to path (py_find path ''/lib''))))
      | None \<Rightarrow>
     (case find (sublist (upper modname @ ''_DIR'')) text of
        Some line \<Rightarrow>
          (case get_argument_from_module_line line of
             Inl e \<Rightarrow> Inl e
           | Inr path \<Rightarrow> Inr (Some path))
      | None \<Rightarrow>
     (case find (sublist ''-rpath/'') text of
        Some line \<Rightarrow>
          Inr (Some (py_slice line (py_find line ''-rpath/'' + 6) (py_find line ''/lib'')))
      | None \<Rightarrow>
     (case find (sublist ''-L/'') text of
        Some line \<Rightarrow>
          Inr (Some (py_slice line (py_find line ''-L/'' + 2) (py_find line ''/lib'')))
      | None \<Rightarrow>
     (case find (sublist ''PATH'') text of
        Some line \<Rightarrow>
          (case get_argument_from_module_line line of
             Inl e \<Rightarrow> Inl e
           | Inr path \<Rightarrow> Inr (Some (py_slice_to path (py_find path ''/bin''))))
      | None \<Rightarrow> Inr None)))))"
  unfolding get_path_from_lines_def find_py_find ..

lemma find_first_match:
  "find P xs = Some x \<longleftrightarrow> (\<exists>pre post. xs = pre @ x # post \<and> P x \<and> list_all (\<lambda>y. \<not> P y) pre)"
proof (induction xs)
  case Nil
  show ?case by simp
next
  case (Cons a xs)
  show ?case
  proof (cases "P a")
    case True
    show ?thesis
    proof
      assume "find P (a # xs) = Some x"
      with True have "a = x" by simp
      with True show "\<exists>pre post. a # xs = pre @ x # post \<and> P x \<and> list_all (\<lambda>y. \<not> P y) pre"
        by (intro exI [of _ "[]"] exI [of _ xs]) simp
    next
      assume "\<exists>pre post. a # xs = pre @ x # post \<and> P x \<and> list_all (\<lambda>y. \<not> P y) pre"
      then obtain pre post where *: "a # xs = pre @ x # post" "list_all (\<lambda>y. \<not> P y) pre" by blast
      with True have "pre = []" by (cases pre) auto
      with * True show "find P (a # xs) = Some x" by simp
    qed
  next
    case False
    have "(\<exists>pre post. a # xs = pre @ x # post \<and> P x \<and> list_all (\<lambda>y. \<not> P y) pre)
          \<longleftrightarrow> (\<exists>pre post. xs = pre @ x # post \<and> P x \<and> list_all (\<lambda>y. \<not> P y) pre)"
    proof
      assume "\<exists>pre post. a # xs = pre @ x # post \<and> P x \<and> list_all (\<lambda>y. \<not> P y) pre"
      then obtain pre post where *: "a # xs = pre @ x # post" "P x" "list_all (\<lambda>y. \<not> P y) pre" by blast
      with False obtain pre' where "pre = a # pre'" by (cases pre) auto
      with * show "\<exists>pre post. xs = pre @ x # post \<and> P x \<and> list_all (\<lambda>y. \<not> P y) pre" by auto
    next
      assume "\<exists>pre post. xs = pre @ x # post \<and> P x \<and> list_all (\<lambda>y. \<not> P y) pre"
      then obtain pre post where *: "xs = pre @ x # post" "P x" "list_all (\<lambda>y. \<not> P y) pre" by blast
      with False show "\<exists>pre post. a # xs = pre @ x # post \<and> P x \<and> list_all (\<lambda>y. \<not> P y) pre"
        by (intro exI [of _ "a # pre"] exI [of _ post]) simp
    qed
    with False Cons show ?thesis by simp
  qed
qed

lemma py_getitem_0: "args \<noteq> [] \<Longrightarrow> py_getitem args 0 = Inr (hd args)"
  by (cases args) (simp_all add: py_getitem_def)

section \<open>The read-only path of the module command\<close>

text \<open>
  Claim C2. An invocation whose first token is not one of load, swap, unload, purge,
  use, unuse takes the read-only path: one command line, \<^verbatim>\<open>module <tokens> 2>&1\<close>, is
  handed to the shell, with standard error joined to standard output; the call
  returns the whole captured text, decoded and not trimmed; the exit status \<open>rc\<close> has
  no part in the result, so a non-zero status is not an error; and \<^verbatim>\<open>os.environ\<close> is
  left as it was.
\<close>

theorem module_read_only:
  assumes "args \<noteq> []"
      and "hd args \<notin> set module_change_commands"
      and "popen rt (environ w) (read_only_command args)
             = Inr \<lparr>stdout_data = out, returncode = rc\<rparr>"
  shows "module rt w args =
           ((case decode rt out of Inl e \<Rightarrow> Inl e | Inr s \<Rightarrow> Inr (PyStr s)),
            w\<lparr>spawned := spawned w @ [read_only_command args]\<rparr>)"
  using assms
  by (simp add: module_def py_getitem_0 read_only_command_def split: sum.splits)

text \<open>
  A run: \<^verbatim>\<open>module show gcc\<close> prints an error message with blanks around it and exits
  with status 1; the message comes back as it was printed.
\<close>

theorem module_read_only_witness:
  "module (fixed_runtime (''  ERROR: no such module '' @ [nl]) 1 [])
          \<lparr>environ = Map.empty, spawned = []\<rparr> [''show'', ''gcc'']
     = (Inr (PyStr (''  ERROR: no such module '' @ [nl])),
        \<lparr>environ = Map.empty, spawned = [''module show gcc 2>&1'']\<rparr>)"
  using module_read_only [of "[''show'', ''gcc'']"
      "fixed_runtime (''  ERROR: no such module '' @ [nl]) 1 []"
      "\<lparr>environ = Map.empty, spawned = []\<rparr>" "''  ERROR: no such module '' @ [nl]" 1]
  by (simp add: fixed_runtime_def module_change_commands_def read_only_command_def
      ascii_decode_def nl_def)

section \<open>The mutating path of the module command\<close>

lemma trim_either_end_first:
  "rev (dropWhile P (rev (dropWhile P s))) = dropWhile P (rev (dropWhile P (rev s)))"
proof (cases "dropWhile P s")
  case Nil
  then have "\<forall>x\<in>set s. P x" by (simp add: dropWhile_eq_Nil_conv)
  then have b: "dropWhile P (rev s) = []" by (simp add: dropWhile_eq_Nil_conv)
  show ?thesis unfolding Nil b by simp
next
  case (Cons x d)
  then have nx: "\<not> P x" by (metis hd_dropWhile list.distinct(1) list.sel(1))
  have s: "s = takeWhile P s @ x # d"
    using Cons takeWhile_dropWhile_id [of P s] by simp
  have "rev s = rev (x # d) @ rev (takeWhile P s)"
    by (subst s) simp
  moreover have "dropWhile P (rev (x # d) @ rev (takeWhile P s))
                   = dropWhile P (rev (x # d)) @ rev (takeWhile P s)"
    using nx by (intro dropWhile_append1 [of x]) simp_all
  ultimately have 1: "rev (dropWhile P (rev s))
                        = takeWhile P s @ rev (dropWhile P (rev (x # d)))"
    by simp
  obtain r where 2: "rev (dropWhile P (rev (x # d))) = x # r"
  proof (cases "\<forall>y\<in>set d. P y")
    case True
    then have "dropWhile P (rev d @ [x]) = dropWhile P [x]"
      by (intro dropWhile_append2) simp
    with nx have "dropWhile P (rev d @ [x]) = [x]" by simp
    then show ?thesis using that by simp
  next
    case False
    then obtain y where "y \<in> set (rev d)" "\<not> P y" by auto
    then have "dropWhile P (rev d @ [x]) = dropWhile P (rev d) @ [x]"
      by (rule dropWhile_append1)
    then show ?thesis using that by simp
  qed
  have "dropWhile P (takeWhile P s @ x # r) = dropWhile P (x # r)"
    by (intro dropWhile_append2) (auto dest: set_takeWhileD)
  with nx have "dropWhile P (takeWhile P s @ x # r) = x # r" by simp
  with 1 2 Cons show ?thesis by simp
qed

text \<open>
  Trimming whitespace from the start first and cutting at line feeds, the last segment
  is the specification's last line.
\<close>

lemma trimmed_last_line_spec:
  "last (py_split (rev (dropWhile spec_whitespace (rev (dropWhile spec_whitespace out))))
                  (CHR 0x0A))
     = spec_last_line out"
  by (simp add: last_py_split spec_last_line_def spec_trim_def trim_either_end_first)

lemma last_line_getitem:
  "py_getitem (py_split s c) (- 1) = Inr (last (py_split s c))"
  by (simp add: py_getitem_last py_split_nonempty)

lemma module_mutating_unfold:
  assumes "args \<noteq> []"
      and "hd args \<in> set module_change_commands"
      and "popen rt (environ w) (mutating_command args) = Inr p"
  shows "module rt w args =
           (if python3 rt
            then (Inl TypeError, w\<lparr>spawned := spawned w @ [mutating_command args]\<rparr>)
            else
              case json_loads rt (last (py_split (strip (stdout_data p)) nl)) of
                Inl e \<Rightarrow> (Inl e, w\<lparr>spawned := spawned w @ [mutating_command args]\<rparr>)
              | Inr d \<Rightarrow>
                  (case os_environ_update rt d Map.empty of
                     (Some e, en) \<Rightarrow>
                       (Inl e, \<lparr>environ = en, spawned = spawned w @ [mutating_command args]\<rparr>)
                   | (None, en) \<Rightarrow>
                       (Inr PyNone, \<lparr>environ = en, spawned = spawned w @ [mutating_command args]\<rparr>)))"
  using assms
  by (simp add: module_def py_getitem_0 mutating_command_def last_line_getitem
      split: sum.splits prod.splits option.splits)

lemma update_items_strings:
  assumes "list_all (\<lambda>(k, v). environ_refuses rt k v = None) items"
  shows "update_items rt (map (\<lambda>(k, v). (k, JString v)) items) e
           = (None, e ++ map_of (rev items))"
  using assms
proof (induction items arbitrary: e)
  case Nil
  show ?case by simp
next
  case (Cons kv items)
  obtain k v where kv: "kv = (k, v)" by (cases kv)
  from Cons.prems kv have ok: "environ_refuses rt k v = None"
    and rest: "list_all (\<lambda>(k, v). environ_refuses rt k v = None) items"
    by simp_all
  have step: "e(k \<mapsto> v) ++ map_of (rev items) = e ++ map_of (rev (kv # items))"
    by (simp add: kv fun_eq_iff map_add_def split: option.splits)
  have "update_items rt (map (\<lambda>(k, v). (k, JString v)) (kv # items)) e
          = update_items rt (map (\<lambda>(k, v). (k, JString v)) items) (e(k \<mapsto> v))"
    by (simp add: kv ok)
  also have "\<dots> = (None, e(k \<mapsto> v) ++ map_of (rev items))"
    by (rule Cons.IH [OF rest])
  finally show ?case by (simp only: step)
qed

text \<open>
  Two ways a mutating call fails after its output was captured. On Python 3 the
  split of the captured bytes raises before anything is parsed, and \<^verbatim>\<open>os.environ\<close>
  is untouched. On Python 2, when the first assignment of the update is refused, the
  error comes after \<^verbatim>\<open>os.environ.clear()\<close> and the environment is left empty.
\<close>

lemma module_mutating_python3:
  assumes "args \<noteq> []"
      and "hd args \<in> set module_change_commands"
      and "popen rt (environ w) (mutating_command args) = Inr p"
      and "python3 rt"
  shows "module rt w args = (Inl TypeError, w\<lparr>spawned := spawned w @ [mutating_command args]\<rparr>)"
  using assms(4) by (simp add: module_mutating_unfold [OF assms(1-3)])

lemma module_mutating_refused:
  assumes "args \<noteq> []"
      and "hd args \<in> set module_change_commands"
      and "popen rt (environ w) (mutating_command args) = Inr p"
      and "\<not> python3 rt"
      and "json_loads rt (last (py_split (strip (stdout_data p)) nl))
             = Inr (JObject ((k, JString v) # kvs))"
      and "environ_refuses rt k v = Some err"
  shows "module rt w args =
           (Inl err, \<lparr>environ = Map.empty, spawned = spawned w @ [mutating_command args]\<rparr>)"
  using assms(4-6) by (simp add: module_mutating_unfold [OF assms(1-3)])

text \<open>
  Claim C1 says that a mutating invocation returns the parsed mapping to its caller
  and leaves the caller's process environment alone. The program does the opposite,
  as its comment announces (\<^verbatim>\<open>read the JSON back in the parent process to update
  os.environ\<close>): it returns \<^verbatim>\<open>None\<close> and overwrites \<^verbatim>\<open>os.environ\<close>. Here, on
  Python 2, \<^verbatim>\<open>module load gcc\<close> prints a warning and then the snapshot
  \<^verbatim>\<open>{"A": "b"}\<close>; the call returns \<^verbatim>\<open>None\<close>, and the environment, which held
  \<^verbatim>\<open>HOME\<close> only, holds \<^verbatim>\<open>A\<close> only.
\<close>

theorem module_mutating_returns_snapshot_counterexample:
  "fst (module (fixed_runtime (''warning: deprecated'' @ [nl] @ ''{'' @ quoted ''A'' @ '': '' @ quoted ''b'' @ ''}'' @ [nl]) 0
                  [(''{'' @ quoted ''A'' @ '': '' @ quoted ''b'' @ ''}'', JObject [(''A'', JString ''b'')])])
          \<lparr>environ = [''HOME'' \<mapsto> ''/root''], spawned = []\<rparr> [''load'', ''gcc''])
     = Inr PyNone
   \<and> environ (snd (module (fixed_runtime (''warning: deprecated'' @ [nl] @ ''{'' @ quoted ''A'' @ '': '' @ quoted ''b'' @ ''}'' @ [nl]) 0
                  [(''{'' @ quoted ''A'' @ '': '' @ quoted ''b'' @ ''}'', JObject [(''A'', JString ''b'')])])
          \<lparr>environ = [''HOME'' \<mapsto> ''/root''], spawned = []\<rparr> [''load'', ''gcc'']))
     = [''A'' \<mapsto> ''b'']
   \<and> [''A'' \<mapsto> ''b''] \<noteq> [''HOME'' \<mapsto> ''/root'']"
  apply (simp add: module_def fixed_runtime_def module_change_commands_def py_getitem_def
      table_json_loads_def strict_refuses_def strip_def isspace_def nl_def quoted_def dq_def)
  apply (simp add: fun_eq_iff)
  apply (rule exI [of _ "''A''"])
  apply simp
  done

text \<open>
  Claim C1, amended. On Python 2, where the captured output is text, for a mutating
  invocation whose trimmed output ends in a line that \<^verbatim>\<open>json.loads\<close> reads as an
  object with string values, each of them an assignment that \<^verbatim>\<open>os.environ\<close>
  accepts, the call returns \<^verbatim>\<open>None\<close> and replaces \<^verbatim>\<open>os.environ\<close> by exactly that
  mapping, whatever it held before (it is cleared, then updated; of two entries with
  one key the later stays).
\<close>

theorem module_mutating_replaces_environ:
  assumes "args \<noteq> []"
      and "hd args \<in> set module_change_commands"
      and "popen rt (environ w) (mutating_command args) = Inr p"
      and "\<not> python3 rt"
      and "json_loads rt (spec_last_line (stdout_data p))
             = Inr (JObject (map (\<lambda>(k, v). (k, JString v)) items))"
      and "list_all (\<lambda>(k, v). environ_refuses rt k v = None) items"
  shows "module rt w args =
           (Inr PyNone,
            \<lparr>environ = map_of (rev items), spawned = spawned w @ [mutating_command args]\<rparr>)"
proof -
  have "isspace = spec_whitespace"
    by (auto simp: fun_eq_iff isspace_def spec_whitespace_def)
  then have sl: "last (py_split (strip (stdout_data p)) nl) = spec_last_line (stdout_data p)"
    by (simp add: strip_def nl_def trimmed_last_line_spec)
  from assms(4,5) show ?thesis
    by (simp add: module_mutating_unfold [OF assms(1-3)] sl update_items_strings [OF assms(6)])
qed

theorem module_mutating_replaces_environ_witness:
  "module (fixed_runtime (''{'' @ quoted ''FOO'' @ '': '' @ quoted ''bar'' @ ''}'' @ [nl]) 0
             [(''{'' @ quoted ''FOO'' @ '': '' @ quoted ''bar'' @ ''}'', JObject [(''FOO'', JString ''bar'')])])
          \<lparr>environ = [''BAZ'' \<mapsto> ''1''], spawned = []\<rparr> [''unload'', ''baz'']
     = (Inr PyNone,
        \<lparr>environ = [''FOO'' \<mapsto> ''bar''], spawned = [mutating_command [''unload'', ''baz'']]\<rparr>)"
proof -
  let ?snap = "''{'' @ quoted ''FOO'' @ '': '' @ quoted ''bar'' @ ''}''"
  let ?rt = "fixed_runtime (?snap @ [nl]) 0 [(?snap, JObject [(''FOO'', JString ''bar'')])]"
  let ?w = "\<lparr>environ = [''BAZ'' \<mapsto> ''1''], spawned = []\<rparr>"
  have h2: "hd [''unload'', ''baz''] \<in> set module_change_commands"
    by (simp add: module_change_commands_def)
  have h3: "popen ?rt (environ ?w) (mutating_command [''unload'', ''baz''])
              = Inr \<lparr>stdout_data = ?snap @ [nl], returncode = 0\<rparr>"
    by (simp add: fixed_runtime_def)
  have h4: "\<not> python3 ?rt" by (simp add: fixed_runtime_def)
  have l: "spec_last_line (stdout_data \<lparr>stdout_data = ?snap @ [nl], returncode = 0\<rparr>) = ?snap"
    by code_simp
  have h5: "json_loads ?rt (spec_last_line (stdout_data \<lparr>stdout_data = ?snap @ [nl], returncode = 0\<rparr>))
              = Inr (JObject (map (\<lambda>(k, v). (k, JString v)) [(''FOO'', ''bar'')]))"
    by (simp only: l) (simp add: fixed_runtime_def table_json_loads_def)
  have h6: "list_all (\<lambda>(k, v). environ_refuses ?rt k v = None) [(''FOO'', ''bar'')]"
    by (simp add: fixed_runtime_def strict_refuses_def)
  have h1: "[''unload'', ''baz''] \<noteq> []" by simp
  from module_mutating_replaces_environ [OF h1 h2 h3 h4 h5 h6]
  show ?thesis by simp
qed

text \<open>
  Claim C3. On the mutating path of a Python 2 run the call is decided by what
  \<^verbatim>\<open>json.loads\<close> makes of one text, the last line of the captured output once the
  whitespace around the output is trimmed: every earlier line is dropped unread, a
  line that is not JSON makes the call fail with the error \<^verbatim>\<open>json.loads\<close> raised,
  and a line that is JSON is the value \<^verbatim>\<open>os.environ\<close> is updated with. On Python 3
  the call never gets that far: \<^verbatim>\<open>env_output.strip().split('\n')\<close> splits bytes by a
  text separator and raises \<^verbatim>\<open>TypeError\<close>, whatever the output is. The read-only
  branch decodes the output for both Python versions; this branch does not.
\<close>

theorem module_mutating_last_line:
  assumes "args \<noteq> []"
      and "hd args \<in> set module_change_commands"
      and "popen rt (environ w) (mutating_command args) = Inr p"
  shows "fst (module rt w args) =
           (if python3 rt then Inl TypeError
            else
              case json_loads rt (spec_last_line (stdout_data p)) of
                Inl e \<Rightarrow> Inl e
              | Inr d \<Rightarrow>
                  (case fst (os_environ_update rt d Map.empty) of
                     Some e \<Rightarrow> Inl e
                   | None \<Rightarrow> Inr PyNone))
       \<and> environ (snd (module rt w args)) =
           (if python3 rt then environ w
            else
              case json_loads rt (spec_last_line (stdout_data p)) of
                Inl e \<Rightarrow> environ w
              | Inr d \<Rightarrow> snd (os_environ_update rt d Map.empty))"
proof -
  have "isspace = spec_whitespace"
    by (auto simp: fun_eq_iff isspace_def spec_whitespace_def)
  then have sl: "last (py_split (strip (stdout_data p)) nl) = spec_last_line (stdout_data p)"
    by (simp add: strip_def nl_def trimmed_last_line_spec)
  show ?thesis
    by (simp add: module_mutating_unfold [OF assms] sl
        split: sum.splits prod.splits option.splits)
qed

text \<open>
  A run: \<^verbatim>\<open>module load gcc\<close> prints an indented warning, the snapshot
  \<^verbatim>\<open>{"PATH": "/usr/bin"}\<close>, an empty line and two blanks. On Python 2 the snapshot is
  found and becomes the environment; on Python 3 the same output gives
  \<^verbatim>\<open>TypeError\<close> and the environment stays.
\<close>

theorem module_mutating_last_line_witness:
  "fst (module (fixed_runtime (''  WARNING: old module'' @ [nl] @ ''{'' @ quoted ''PATH'' @ '': '' @ quoted ''/usr/bin'' @ ''}'' @ [nl, nl] @ ''  '') 0
                  [(''{'' @ quoted ''PATH'' @ '': '' @ quoted ''/usr/bin'' @ ''}'', JObject [(''PATH'', JString ''/usr/bin'')])])
          \<lparr>environ = [''HOME'' \<mapsto> ''/root''], spawned = []\<rparr> [''load'', ''gcc''])
     = Inr PyNone
   \<and> environ (snd (module (fixed_runtime (''  WARNING: old module'' @ [nl] @ ''{'' @ quoted ''PATH'' @ '': '' @ quoted ''/usr/bin'' @ ''}'' @ [nl, nl] @ ''  '') 0
                  [(''{'' @ quoted ''PATH'' @ '': '' @ quoted ''/usr/bin'' @ ''}'', JObject [(''PATH'', JString ''/usr/bin'')])])
          \<lparr>environ = [''HOME'' \<mapsto> ''/root''], spawned = []\<rparr> [''load'', ''gcc'']))
     = [''PATH'' \<mapsto> ''/usr/bin'']
   \<and> fst (module ((fixed_runtime (''  WARNING: old module'' @ [nl] @ ''{'' @ quoted ''PATH'' @ '': '' @ quoted ''/usr/bin'' @ ''}'' @ [nl, nl] @ ''  '') 0
                  [(''{'' @ quoted ''PATH'' @ '': '' @ quoted ''/usr/bin'' @ ''}'', JObject [(''PATH'', JString ''/usr/bin'')])])
                  \<lparr>python3 := True\<rparr>)
          \<lparr>environ = [''HOME'' \<mapsto> ''/root''], spawned = []\<rparr> [''load'', ''gcc''])
     = Inl TypeError
   \<and> environ (snd (module ((fixed_runtime (''  WARNING: old module'' @ [nl] @ ''{'' @ quoted ''PATH'' @ '': '' @ quoted ''/usr/bin'' @ ''}'' @ [nl, nl] @ ''  '') 0
                  [(''{'' @ quoted ''PATH'' @ '': '' @ quoted ''/usr/bin'' @ ''}'', JObject [(''PATH'', JString ''/usr/bin'')])])
                  \<lparr>python3 := True\<rparr>)
          \<lparr>environ = [''HOME'' \<mapsto> ''/root''], spawned = []\<rparr> [''load'', ''gcc'']))
     = [''HOME'' \<mapsto> ''/root'']"
proof -
  let ?snap = "''{'' @ quoted ''PATH'' @ '': '' @ quoted ''/usr/bin'' @ ''}''"
  let ?out = "''  WARNING: old module'' @ [nl] @ ?snap @ [nl, nl] @ ''  ''"
  let ?rt = "fixed_runtime ?out 0 [(?snap, JObject [(''PATH'', JString ''/usr/bin'')])]"
  let ?w = "\<lparr>environ = [''HOME'' \<mapsto> ''/root''], spawned = []\<rparr>"
  let ?p = "\<lparr>stdout_data = ?out, returncode = 0\<rparr>"
  have h1: "[''load'', ''gcc''] \<noteq> []" by simp
  have h2: "hd [''load'', ''gcc''] \<in> set module_change_commands"
    by (simp add: module_change_commands_def)
  have h3: "popen ?rt (environ ?w) (mutating_command [''load'', ''gcc'']) = Inr ?p"
    by (simp add: fixed_runtime_def)
  have h3': "popen (?rt\<lparr>python3 := True\<rparr>) (environ ?w) (mutating_command [''load'', ''gcc''])
               = Inr ?p"
    by (simp add: fixed_runtime_def)
  have l: "spec_last_line (stdout_data ?p) = ?snap" by code_simp
  have j: "json_loads ?rt ?snap = Inr (JObject [(''PATH'', JString ''/usr/bin'')])"
    by (simp add: fixed_runtime_def table_json_loads_def)
  have u: "os_environ_update ?rt (JObject [(''PATH'', JString ''/usr/bin'')]) Map.empty
             = (None, [''PATH'' \<mapsto> ''/usr/bin''])"
    by (simp add: fixed_runtime_def strict_refuses_def)
  have p2: "\<not> python3 ?rt" by (simp add: fixed_runtime_def)
  have p3: "python3 (?rt\<lparr>python3 := True\<rparr>)" by simp
  from module_mutating_last_line [OF h1 h2 h3]
  have a: "fst (module ?rt ?w [''load'', ''gcc'']) = Inr PyNone
         \<and> environ (snd (module ?rt ?w [''load'', ''gcc''])) = [''PATH'' \<mapsto> ''/usr/bin'']"
    by (simp only: l j u p2 if_False sum.case fst_conv snd_conv option.case)
  from module_mutating_last_line [OF h1 h2 h3']
  have b: "fst (module (?rt\<lparr>python3 := True\<rparr>) ?w [''load'', ''gcc'']) = Inl TypeError
         \<and> environ (snd (module (?rt\<lparr>python3 := True\<rparr>) ?w [''load'', ''gcc'']))
             = [''HOME'' \<mapsto> ''/root'']"
    by (simp only: p3 if_True) simp
  have c: "fst (module ?rt ?w [''load'', ''gcc'']) = Inr PyNone"
    by (simp add: module_def fixed_runtime_def module_change_commands_def py_getitem_def
        table_json_loads_def strict_refuses_def strip_def isspace_def nl_def quoted_def dq_def)
  from a b c show ?thesis by simp
qed

text \<open>
  Claim C9. When the last line of a mutating invocation's output is not JSON, the
  call raises and \<^verbatim>\<open>os.environ\<close> is what it was before the call: the parse comes
  before \<^verbatim>\<open>os.environ.clear()\<close>. The error is the one \<^verbatim>\<open>json.loads\<close> raised, or on
  Python 3 the \<^verbatim>\<open>TypeError\<close> of the split, which comes earlier still.
\<close>

theorem module_mutating_atomic:
  assumes "args \<noteq> []"
      and "hd args \<in> set module_change_commands"
      and "popen rt (environ w) (mutating_command args) = Inr p"
      and "json_loads rt (spec_last_line (stdout_data p)) = Inl e"
  shows "fst (module rt w args) = Inl (if python3 rt then TypeError else e)
       \<and> environ (snd (module rt w args)) = environ w"
proof -
  have "isspace = spec_whitespace"
    by (auto simp: fun_eq_iff isspace_def spec_whitespace_def)
  then have sl: "last (py_split (strip (stdout_data p)) nl) = spec_last_line (stdout_data p)"
    by (simp add: strip_def nl_def trimmed_last_line_spec)
  from assms(4) show ?thesis
    by (simp add: module_mutating_unfold [OF assms(1-3)] sl)
qed

text \<open>
  A run: the shell finds neither the \<^verbatim>\<open>module\<close> command nor the helper's
  interpreter; \<^verbatim>\<open>HOME\<close> is still set afterwards.
\<close>

theorem module_mutating_atomic_witness:
  "fst (module (fixed_runtime (''sh: module: not found'' @ [nl] @ ''sh: python: not found'' @ [nl]) 127 [])
          \<lparr>environ = [''HOME'' \<mapsto> ''/root''], spawned = []\<rparr> [''swap'', ''a'', ''b''])
     = Inl (ValueError ''No JSON object could be decoded'')
   \<and> environ (snd (module (fixed_runtime (''sh: module: not found'' @ [nl] @ ''sh: python: not found'' @ [nl]) 127 [])
          \<lparr>environ = [''HOME'' \<mapsto> ''/root''], spawned = []\<rparr> [''swap'', ''a'', ''b'']))
     = [''HOME'' \<mapsto> ''/root'']"
  using module_mutating_atomic [of "[''swap'', ''a'', ''b'']"
      "fixed_runtime (''sh: module: not found'' @ [nl] @ ''sh: python: not found'' @ [nl]) 127 []"
      "\<lparr>environ = [''HOME'' \<mapsto> ''/root''], spawned = []\<rparr>"
      "\<lparr>stdout_data = ''sh: module: not found'' @ [nl] @ ''sh: python: not found'' @ [nl], returncode = 127\<rparr>"
      "ValueError ''No JSON object could be decoded''"]
  by (simp add: fixed_runtime_def module_change_commands_def table_json_loads_def)

section \<open>The argument of a description line\<close>

text \<open>
  With the concrete runtime, \<^verbatim>\<open>get_path_from_module\<close> reads the description the shell
  printed and works on its lines.
\<close>

lemma get_path_from_module_fixed:
  "fst (get_path_from_module (fixed_runtime out rc tbl) w modname)
     = (case ascii_decode out of
          Inl e \<Rightarrow> Inl e
        | Inr s \<Rightarrow> get_path_from_lines modname (py_split s nl))"
  by (simp add: get_path_from_module_def module_def fixed_runtime_def py_getitem_def
      module_change_commands_def split: sum.splits)

lemma ex_lua_ld:
  "fst (get_path_from_module
          (fixed_runtime (''setenv('' @ quoted ''LD_LIBRARY_PATH'' @ '','' @ quoted ''/opt/foo/2.0/lib64'' @ '')'') 0 [])
          w ''foo'')
     = Inr (Some ''/opt/foo/2.0'')"
  unfolding get_path_from_module_fixed by code_simp

lemma ex_tcl_ld:
  "fst (get_path_from_module (fixed_runtime ''setenv LD_LIBRARY_PATH /opt/foo/2.0/lib'' 0 []) w ''foo'')
     = Inr (Some ''/opt/foo/2.0'')"
  unfolding get_path_from_module_fixed by code_simp

text \<open>
  Claim C4. On a line that contains both parentheses, the delimiter is the quote
  character, double or single, that comes first in the part of the line from its
  first comma onward; the line is split at every occurrence of the delimiter and the
  second-to-last segment is returned. For the description
  \<^verbatim>\<open>setenv("LD_LIBRARY_PATH","/opt/foo/2.0/lib64")\<close> the path found is \<^verbatim>\<open>/opt/foo/2.0\<close>.
\<close>

theorem lua_argument:
  assumes "lparen \<in> set line" and "rparen \<in> set line"
      and "spec_delimiter line = Some q"
  shows "get_argument_from_module_line line = Inr (second_to_last (py_split line q))
       \<and> fst (get_path_from_module
                (fixed_runtime (''setenv('' @ quoted ''LD_LIBRARY_PATH'' @ '','' @ quoted ''/opt/foo/2.0/lib64'' @ '')'') 0 [])
                w ''foo'')
           = Inr (Some ''/opt/foo/2.0'')"
proof -
  from assms(3) have f: "find is_lua_quote (dropWhile (\<lambda>c. c \<noteq> comma) line) = Some q"
    by (simp add: spec_delimiter_def)
  note c = find_quote_comma [OF f]
  from c(2) have "2 \<le> length (py_split line q)"
    using count_list_0_iff [of line q] by (auto simp: length_py_split)
  then have "py_getitem (py_split line q) (- 2) = Inr (second_to_last (py_split line q))"
    by (simp add: py_getitem_second_to_last second_to_last_def)
  then have "get_argument_from_module_line line = Inr (second_to_last (py_split line q))"
    by (subst lua_branch [OF assms(1,2) c(1)], subst lua_quote_Some [OF f], simp)
  with ex_lua_ld show ?thesis by simp
qed

text \<open>
  A line that quotes its first argument with double quotes and its second with single
  quotes: the quote after the comma decides.
\<close>

theorem lua_argument_witness:
  "spec_delimiter (''prepend_path('' @ quoted ''PATH'' @ '','' @ [sq] @ ''/opt/bar/bin'' @ [sq] @ '')'') = Some sq
   \<and> get_argument_from_module_line (''prepend_path('' @ quoted ''PATH'' @ '','' @ [sq] @ ''/opt/bar/bin'' @ [sq] @ '')'')
       = Inr ''/opt/bar/bin''"
proof -
  let ?l = "''prepend_path('' @ quoted ''PATH'' @ '','' @ [sq] @ ''/opt/bar/bin'' @ [sq] @ '')''"
  have h1: "lparen \<in> set ?l" by (simp add: lparen_def)
  have h2: "rparen \<in> set ?l" by (simp add: rparen_def)
  have h3: "spec_delimiter ?l = Some sq" by code_simp
  have v: "second_to_last (py_split ?l sq) = ''/opt/bar/bin''" by code_simp
  from lua_argument [OF h1 h2 h3] h3 v show ?thesis by simp
qed

text \<open>
  Claim C5. On a line that does not contain both parentheses, the result is the third
  word of the line cut at runs of whitespace, index 2 counting from 0; a line of fewer
  than three words raises \<^verbatim>\<open>IndexError\<close>. For the description
  \<^verbatim>\<open>setenv LD_LIBRARY_PATH /opt/foo/2.0/lib\<close> the path found is \<^verbatim>\<open>/opt/foo/2.0\<close>.
\<close>

theorem tcl_argument:
  assumes "\<not> (lparen \<in> set line \<and> rparen \<in> set line)"
  shows "(3 \<le> length (py_split_ws line) \<longrightarrow>
            get_argument_from_module_line line = Inr (py_split_ws line ! 2))
       \<and> (length (py_split_ws line) < 3 \<longrightarrow>
            get_argument_from_module_line line = Inl IndexError)
       \<and> fst (get_path_from_module
                (fixed_runtime ''setenv LD_LIBRARY_PATH /opt/foo/2.0/lib'' 0 []) w ''foo'')
           = Inr (Some ''/opt/foo/2.0'')"
proof -
  from assms have "get_argument_from_module_line line = py_getitem (py_split_ws line) 2"
    by (auto simp add: get_argument_from_module_line_def py_in_single)
  with ex_tcl_ld show ?thesis by (auto simp: py_getitem_def)
qed

text \<open>A line whose words are separated by a tab and by several blanks.\<close>

theorem tcl_argument_witness:
  "py_split_ws (''prepend-path'' @ [CHR 0x09] @ ''PATH   /opt/bar/bin '') = [''prepend-path'', ''PATH'', ''/opt/bar/bin'']
   \<and> get_argument_from_module_line (''prepend-path'' @ [CHR 0x09] @ ''PATH   /opt/bar/bin '') = Inr ''/opt/bar/bin''"
proof -
  let ?l = "''prepend-path'' @ [CHR 0x09] @ ''PATH   /opt/bar/bin ''"
  have h: "\<not> (lparen \<in> set ?l \<and> rparen \<in> set ?l)" by (simp add: lparen_def)
  have v: "py_split_ws ?l = [''prepend-path'', ''PATH'', ''/opt/bar/bin'']" by code_simp
  from tcl_argument [OF h] v show ?thesis by simp
qed

text \<open>
  Claim C6. On a line that contains both parentheses and has no quote character from
  its first comma onward, the function raises \<^verbatim>\<open>ValueError\<close>, with the message
  \<^verbatim>\<open>No lua quote symbol found in lmod module line.\<close> when the line has a comma. It
  returns no value, and a caller that reached the line through the
  \<^verbatim>\<open>LD_LIBRARY_PATH\<close> loop raises too instead of going on to the next loop.
\<close>

theorem lua_no_quote:
  assumes "lparen \<in> set line" and "rparen \<in> set line"
      and "spec_delimiter line = None"
  shows "(\<exists>m. get_argument_from_module_line line = Inl (ValueError m))
       \<and> (comma \<in> set line \<longrightarrow>
            get_argument_from_module_line line
              = Inl (ValueError ''No lua quote symbol found in lmod module line.''))
       \<and> (first_line_containing ''LD_LIBRARY_PATH'' text = Some line \<longrightarrow>
            (\<exists>m. get_path_from_lines modname text = Inl (ValueError m)))"
proof -
  from assms(3) have f: "find is_lua_quote (dropWhile (\<lambda>c. c \<noteq> comma) line) = None"
    by (simp add: spec_delimiter_def)
  have 2: "get_argument_from_module_line line
           = Inl (ValueError ''No lua quote symbol found in lmod module line.'')" if "comma \<in> set line"
    by (subst lua_branch [OF assms(1,2) that], subst quote_index_None [OF f], simp)
  have 1: "\<exists>m. get_argument_from_module_line line = Inl (ValueError m)"
  proof (cases "comma \<in> set line")
    case True then show ?thesis using 2 by blast
  next
    case False
    with assms(1,2) show ?thesis
      by (simp add: get_argument_from_module_line_def py_in_single py_index_single)
  qed
  have 3: "\<exists>m. get_path_from_lines modname text = Inl (ValueError m)"
    if "first_line_containing ''LD_LIBRARY_PATH'' text = Some line"
    using that 1 by (auto simp: get_path_from_lines_spec first_line_containing_def)
  from 1 2 3 show ?thesis by blast
qed

theorem lua_no_quote_witness:
  "spec_delimiter ''setenv(LD_LIBRARY_PATH,/opt/foo/lib)'' = None
   \<and> get_argument_from_module_line ''setenv(LD_LIBRARY_PATH,/opt/foo/lib)''
       = Inl (ValueError ''No lua quote symbol found in lmod module line.'')"
proof -
  let ?l = "''setenv(LD_LIBRARY_PATH,/opt/foo/lib)''"
  have h1: "lparen \<in> set ?l" by (simp add: lparen_def)
  have h2: "rparen \<in> set ?l" by (simp add: rparen_def)
  have h3: "spec_delimiter ?l = None" by code_simp
  have h4: "comma \<in> set ?l" by (simp add: comma_def)
  from lua_no_quote [OF h1 h2 h3, of "[]" "[]"]
  have "comma \<in> set ?l \<longrightarrow> get_argument_from_module_line ?l
          = Inl (ValueError ''No lua quote symbol found in lmod module line.'')"
    by (rule conjunct1 [OF conjunct2])
  with h3 h4 show ?thesis by blast
qed

section \<open>The order of the heuristics\<close>

lemma ex_dir:
  "fst (get_path_from_module (fixed_runtime ''setenv FOO_DIR /opt/foo/2.0'' 0 []) w ''foo'')
     = Inr (Some ''/opt/foo/2.0'')"
  unfolding get_path_from_module_fixed by code_simp

lemma ex_priority:
  "fst (get_path_from_module
          (fixed_runtime (''setenv FOO_DIR /opt/foo/2.0'' @ [nl]
                          @ ''prepend-path LD_LIBRARY_PATH /opt/other/1.0/lib'') 0 [])
          w ''foo'')
     = Inr (Some ''/opt/other/1.0'')"
  unfolding get_path_from_module_fixed by code_simp

lemma ex_absent:
  "fst (get_path_from_module
          (fixed_runtime (''module-whatis a library'' @ [nl] @ ''conflict foo'') 0 []) w ''foo'')
     = Inr None"
  unfolding get_path_from_module_fixed by code_simp

text \<open>
  Claim C7. The description is searched five times, in this order: for a line that
  contains \<^verbatim>\<open>LD_LIBRARY_PATH\<close>, for one that contains the upper-cased module name
  followed by \<^verbatim>\<open>_DIR\<close>, for one that contains \<^verbatim>\<open>-rpath/\<close>, for one that contains
  \<^verbatim>\<open>-L/\<close>, and for one that contains \<^verbatim>\<open>PATH\<close>. The first search that finds a line
  decides, by the first line it finds; a later search is reached only when no line
  matched the earlier ones. The second search returns the argument of its line as it
  is. When no search finds a line the result is \<^verbatim>\<open>None\<close>, not an error. A
  \<^verbatim>\<open>FOO_DIR\<close> line alone gives its argument; before an \<^verbatim>\<open>LD_LIBRARY_PATH\<close> line
  with another path it loses to that line; a description with none of the five texts
  gives \<^verbatim>\<open>None\<close>.
\<close>

theorem path_priority:
  "(first_line_containing ''LD_LIBRARY_PATH'' text = Some l \<longrightarrow>
      get_path_from_lines modname text =
        (case get_argument_from_module_line l of
           Inl e \<Rightarrow> Inl e
         | Inr path \<Rightarrow> Inr (Some (py_slice_to path (py_find path ''/lib'')))))
 \<and> (first_line_containing ''LD_LIBRARY_PATH'' text = None
      \<and> first_line_containing (upper modname @ ''_DIR'') text = Some l \<longrightarrow>
      get_path_from_lines modname text =
        (case get_argument_from_module_line l of
           Inl e \<Rightarrow> Inl e
         | Inr path \<Rightarrow> Inr (Some path)))
 \<and> (first_line_containing ''LD_LIBRARY_PATH'' text = None
      \<and> first_line_containing (upper modname @ ''_DIR'') text = None
      \<and> first_line_containing ''-rpath/'' text = Some l \<longrightarrow>
      get_path_from_lines modname text =
        Inr (Some (py_slice l (py_find l ''-rpath/'' + 6) (py_find l ''/lib''))))
 \<and> (first_line_containing ''LD_LIBRARY_PATH'' text = None
      \<and> first_line_containing (upper modname @ ''_DIR'') text = None
      \<and> first_line_containing ''-rpath/'' text = None
      \<and> first_line_containing ''-L/'' text = Some l \<longrightarrow>
      get_path_from_lines modname text =
        Inr (Some (py_slice l (py_find l ''-L/'' + 2) (py_find l ''/lib''))))
 \<and> (first_line_containing ''LD_LIBRARY_PATH'' text = None
      \<and> first_line_containing (upper modname @ ''_DIR'') text = None
      \<and> first_line_containing ''-rpath/'' text = None
      \<and> first_line_containing ''-L/'' text = None
      \<and> first_line_containing ''PATH'' text = Some l \<longrightarrow>
      get_path_from_lines modname text =
        (case get_argument_from_module_line l of
           Inl e \<Rightarrow> Inl e
         | Inr path \<Rightarrow> Inr (Some (py_slice_to path (py_find path ''/bin'')))))
 \<and> (first_line_containing ''LD_LIBRARY_PATH'' text = None
      \<and> first_line_containing (upper modname @ ''_DIR'') text = None
      \<and> first_line_containing ''-rpath/'' text = None
      \<and> first_line_containing ''-L/'' text = None
      \<and> first_line_containing ''PATH'' text = None \<longrightarrow>
      get_path_from_lines modname text = Inr None)
 \<and> fst (get_path_from_module (fixed_runtime ''setenv FOO_DIR /opt/foo/2.0'' 0 []) w ''foo'')
       = Inr (Some ''/opt/foo/2.0'')
 \<and> fst (get_path_from_module
          (fixed_runtime (''setenv FOO_DIR /opt/foo/2.0'' @ [nl]
                          @ ''prepend-path LD_LIBRARY_PATH /opt/other/1.0/lib'') 0 [])
          w ''foo'')
       = Inr (Some ''/opt/other/1.0'')
 \<and> fst (get_path_from_module
          (fixed_runtime (''module-whatis a library'' @ [nl] @ ''conflict foo'') 0 []) w ''foo'')
       = Inr None"
  unfolding ex_dir ex_priority ex_absent
  by (simp add: get_path_from_lines_spec first_line_containing_def)

text \<open>
  A description of module \<^verbatim>\<open>bar\<close> without \<^verbatim>\<open>LD_LIBRARY_PATH\<close>: the \<^verbatim>\<open>BAR_DIR\<close> line
  wins over the \<^verbatim>\<open>PATH\<close> line and its argument is not cut at \<^verbatim>\<open>/lib\<close>.
\<close>

theorem path_priority_witness:
  "first_line_containing ''LD_LIBRARY_PATH''
      [''setenv BAR_DIR /opt/bar/lib/3.2'', ''append-path PATH /opt/bar/lib/3.2/bin''] = None
   \<and> first_line_containing (upper ''bar'' @ ''_DIR'')
      [''setenv BAR_DIR /opt/bar/lib/3.2'', ''append-path PATH /opt/bar/lib/3.2/bin'']
       = Some ''setenv BAR_DIR /opt/bar/lib/3.2''
   \<and> get_path_from_lines ''bar''
      [''setenv BAR_DIR /opt/bar/lib/3.2'', ''append-path PATH /opt/bar/lib/3.2/bin'']
       = Inr (Some ''/opt/bar/lib/3.2'')"
proof -
  let ?t = "[''setenv BAR_DIR /opt/bar/lib/3.2'', ''append-path PATH /opt/bar/lib/3.2/bin'']"
  have h1: "first_line_containing ''LD_LIBRARY_PATH'' ?t = None" by code_simp
  have h2: "first_line_containing (upper ''bar'' @ ''_DIR'') ?t = Some ''setenv BAR_DIR /opt/bar/lib/3.2''"
    by code_simp
  have v: "get_argument_from_module_line ''setenv BAR_DIR /opt/bar/lib/3.2'' = Inr ''/opt/bar/lib/3.2''"
    by code_simp
  from path_priority [of ?t "''setenv BAR_DIR /opt/bar/lib/3.2''" "''bar''"
      "\<lparr>environ = Map.empty, spawned = []\<rparr>"]
  have "first_line_containing ''LD_LIBRARY_PATH'' ?t = None
      \<and> first_line_containing (upper ''bar'' @ ''_DIR'') ?t = Some ''setenv BAR_DIR /opt/bar/lib/3.2'' \<longrightarrow>
      get_path_from_lines ''bar'' ?t =
        (case get_argument_from_module_line ''setenv BAR_DIR /opt/bar/lib/3.2'' of
           Inl e \<Rightarrow> Inl e
         | Inr path \<Rightarrow> Inr (Some path))"
    by (rule conjunct1 [OF conjunct2])
  with h1 h2 have "get_path_from_lines ''bar'' ?t =
        (case get_argument_from_module_line ''setenv BAR_DIR /opt/bar/lib/3.2'' of
           Inl e \<Rightarrow> Inl e
         | Inr path \<Rightarrow> Inr (Some path))" by blast
  with h1 h2 show ?thesis by (simp only: v sum.case)
qed

section \<open>Where a path is cut\<close>

lemma ex_rpath:
  "fst (get_path_from_module (fixed_runtime ''cc -rpath/opt/foo/3.1/lib -o out'' 0 []) w ''foo'')
     = Inr (Some ''/opt/foo/3.1'')"
  unfolding get_path_from_module_fixed by code_simp

lemma ex_rpath_earlier_lib:
  "fst (get_path_from_module
          (fixed_runtime ''cc -L/opt/foo/3.1/lib -rpath/opt/foo/3.1/lib -o out'' 0 []) w ''foo'')
     = Inr (Some '''')"
  unfolding get_path_from_module_fixed by code_simp

text \<open>
  Claim C8 says that the \<^verbatim>\<open>-rpath/\<close> loop returns the text from six characters after
  the match up to the first \<^verbatim>\<open>/lib\<close> that follows. The program computes the end of
  the slice with \<^verbatim>\<open>line.find('/lib')\<close>, which searches the line from its start. The
  description \<^verbatim>\<open>cc -rpath/opt/foo/3.1/lib -o out\<close> gives \<^verbatim>\<open>/opt/foo/3.1\<close>, as the
  claim says; with a \<^verbatim>\<open>/lib\<close> before the match, as in
  \<^verbatim>\<open>cc -L/opt/foo/3.1/lib -rpath/opt/foo/3.1/lib -o out\<close>, the slice ends before it
  starts and the result is the empty string.
\<close>

theorem rpath_truncation_searches_whole_line:
  "fst (get_path_from_module (fixed_runtime ''cc -rpath/opt/foo/3.1/lib -o out'' 0 []) w ''foo'')
     = Inr (Some ''/opt/foo/3.1'')
   \<and> fst (get_path_from_module
          (fixed_runtime ''cc -L/opt/foo/3.1/lib -rpath/opt/foo/3.1/lib -o out'' 0 []) w ''foo'')
     = Inr (Some '''')"
  unfolding ex_rpath ex_rpath_earlier_lib by simp

text \<open>
  Claim C10. When the argument taken from an \<^verbatim>\<open>LD_LIBRARY_PATH\<close> line does not contain
  \<^verbatim>\<open>/lib\<close>, the path returned is the argument without its last character:
  \<^verbatim>\<open>find\<close> gives \<open>-1\<close> and the slice \<^verbatim>\<open>path[:-1]\<close> drops one character. The same
  holds in the \<^verbatim>\<open>PATH\<close> loop for an argument that does not contain \<^verbatim>\<open>/bin\<close>.
\<close>

theorem truncation_marker_absent:
  "(first_line_containing ''LD_LIBRARY_PATH'' text = Some l
      \<and> get_argument_from_module_line l = Inr path
      \<and> \<not> sublist ''/lib'' path \<longrightarrow>
      get_path_from_lines modname text = Inr (Some (butlast path)))
 \<and> (first_line_containing ''LD_LIBRARY_PATH'' text = None
      \<and> first_line_containing (upper modname @ ''_DIR'') text = None
      \<and> first_line_containing ''-rpath/'' text = None
      \<and> first_line_containing ''-L/'' text = None
      \<and> first_line_containing ''PATH'' text = Some l
      \<and> get_argument_from_module_line l = Inr path
      \<and> \<not> sublist ''/bin'' path \<longrightarrow>
      get_path_from_lines modname text = Inr (Some (butlast path)))"
  by (simp add: get_path_from_lines_spec first_line_containing_def py_find_absent
      py_slice_to_minus_one)

theorem truncation_marker_absent_witness:
  "first_line_containing ''LD_LIBRARY_PATH'' [''setenv LD_LIBRARY_PATH /opt/foo/2.0''] =
      Some ''setenv LD_LIBRARY_PATH /opt/foo/2.0''
   \<and> get_argument_from_module_line ''setenv LD_LIBRARY_PATH /opt/foo/2.0'' = Inr ''/opt/foo/2.0''
   \<and> \<not> sublist ''/lib'' ''/opt/foo/2.0''
   \<and> get_path_from_lines ''foo'' [''setenv LD_LIBRARY_PATH /opt/foo/2.0''] = Inr (Some ''/opt/foo/2.'')"
proof -
  let ?l = "''setenv LD_LIBRARY_PATH /opt/foo/2.0''"
  have h1: "first_line_containing ''LD_LIBRARY_PATH'' [?l] = Some ?l" by code_simp
  have h2: "get_argument_from_module_line ?l = Inr ''/opt/foo/2.0''" by code_simp
  have h3: "\<not> sublist ''/lib'' ''/opt/foo/2.0''" by code_simp
  from truncation_marker_absent [of "[?l]" ?l "''/opt/foo/2.0''" "''foo''"]
  have "first_line_containing ''LD_LIBRARY_PATH'' [?l] = Some ?l
      \<and> get_argument_from_module_line ?l = Inr ''/opt/foo/2.0''
      \<and> \<not> sublist ''/lib'' ''/opt/foo/2.0'' \<longrightarrow>
      get_path_from_lines ''foo'' [?l] = Inr (Some (butlast ''/opt/foo/2.0''))"
    by (rule conjunct1)
  with h1 h2 h3 have "get_path_from_lines ''foo'' [?l] = Inr (Some (butlast ''/opt/foo/2.0''))"
    by blast
  with h1 h2 h3 show ?thesis by simp
qed

end
